theory Spec2Isabelle
  imports Complex_Main
begin

section \<open>Data model\<close>

text \<open>
  JavaScript numbers are modelled as exact reals where the source computes with fractions
  (rates, prices, balances) and as integers where the source holds whole numbers (levels,
  versions, millisecond timestamps). Rounding of IEEE doubles is outside this model.
  An ISO timestamp string is modelled by the millisecond instant it denotes, which is what
  \<^verbatim>\<open>new Date(s).getTime()\<close> reads back from \<^verbatim>\<open>toISOString()\<close>.
\<close>

text \<open>Exceptions of the source: \<^verbatim>\<open>new Error(msg)\<close>, an axios error with the status of
  its response when one was received, a schema (zod) or JSON parse error, and the
  \<^verbatim>\<open>TypeError\<close> of reading a field of \<^verbatim>\<open>undefined\<close>.\<close>

datatype js_error =
    Error string
  | AxiosError "nat option"
  | ZodError
  | TypeError

record PartConfig =
  maxLevel :: int
  baseHashRate :: real
  basePrice :: real
  priceMultiplier :: real
  hashRateMultiplier :: real

text \<open>\<^verbatim>\<open>partConfigs: Record<string, PartConfig>\<close> of config/partConfigs.ts.\<close>

definition partConfigs :: "string \<Rightarrow> PartConfig option" where
  "partConfigs = map_of
     [(''cpu'', \<lparr>maxLevel = 25, baseHashRate = 5 / 10, basePrice = 100,
                 priceMultiplier = 15 / 10, hashRateMultiplier = 12 / 10\<rparr>),
      (''gpu'', \<lparr>maxLevel = 20, baseHashRate = 1, basePrice = 150,
                 priceMultiplier = 16 / 10, hashRateMultiplier = 13 / 10\<rparr>),
      (''motherboard'', \<lparr>maxLevel = 15, baseHashRate = 3 / 10, basePrice = 80,
                 priceMultiplier = 14 / 10, hashRateMultiplier = 115 / 100\<rparr>),
      (''psu'', \<lparr>maxLevel = 12, baseHashRate = 2 / 10, basePrice = 60,
                 priceMultiplier = 135 / 100, hashRateMultiplier = 11 / 10\<rparr>),
      (''ram'', \<lparr>maxLevel = 18, baseHashRate = 4 / 10, basePrice = 90,
                 priceMultiplier = 145 / 100, hashRateMultiplier = 125 / 100\<rparr>)]"

text \<open>The \<^verbatim>\<open>parts\<close> object of a game state: five fixed keys.\<close>

record PartInventory =
  cpu :: int
  gpu :: int
  motherboard :: int
  psu :: int
  ram :: int

text \<open>\<^verbatim>\<open>keyof GameState['parts']\<close>, a union of five string literals.\<close>

datatype part_key = Cpu | Gpu | Motherboard | Psu | Ram

fun key_name :: "part_key \<Rightarrow> string" where
  "key_name Cpu = ''cpu''"
| "key_name Gpu = ''gpu''"
| "key_name Motherboard = ''motherboard''"
| "key_name Psu = ''psu''"
| "key_name Ram = ''ram''"

fun level_of :: "PartInventory \<Rightarrow> part_key \<Rightarrow> int" where
  "level_of p Cpu = cpu p"
| "level_of p Gpu = gpu p"
| "level_of p Motherboard = motherboard p"
| "level_of p Psu = psu p"
| "level_of p Ram = ram p"

text \<open>\<^verbatim>\<open>{ ...parts, [part]: level }\<close>\<close>

fun set_level :: "part_key \<Rightarrow> int \<Rightarrow> PartInventory \<Rightarrow> PartInventory" where
  "set_level Cpu l p = p\<lparr>cpu := l\<rparr>"
| "set_level Gpu l p = p\<lparr>gpu := l\<rparr>"
| "set_level Motherboard l p = p\<lparr>motherboard := l\<rparr>"
| "set_level Psu l p = p\<lparr>psu := l\<rparr>"
| "set_level Ram l p = p\<lparr>ram := l\<rparr>"

text \<open>\<^verbatim>\<open>Object.entries(parts)\<close>, in the order the keys are written.\<close>

definition entries :: "PartInventory \<Rightarrow> (string \<times> int) list" where
  "entries p = [(''cpu'', cpu p), (''gpu'', gpu p), (''motherboard'', motherboard p),
                (''psu'', psu p), (''ram'', ram p)]"

text \<open>The game state with the \<^verbatim>\<open>version\<close> of \<^verbatim>\<open>GameStateWithVersion\<close>; a state
  that carries none reads as version 0, the default of the schema.\<close>

record GameState =
  balance :: real
  parts :: PartInventory
  hashRates :: "string \<Rightarrow> real option"
  lastUpdated :: int
  isMining :: bool
  totalMined :: real
  miningStartTime :: "int option"
  version :: int

section \<open>Economy model (utils/calculations.ts)\<close>

definition calculateUpgradeCost :: "string \<Rightarrow> int \<Rightarrow> js_error + int" where
  "calculateUpgradeCost part currentLevel =
     (case partConfigs part of
        None \<Rightarrow> Inl TypeError
      | Some config \<Rightarrow> Inr \<lfloor>basePrice config * (priceMultiplier config powi currentLevel)\<rfloor>)"

definition calculateHashRate :: "string \<Rightarrow> int \<Rightarrow> js_error + real" where
  "calculateHashRate part level =
     (case partConfigs part of
        None \<Rightarrow> Inl TypeError
      | Some config \<Rightarrow> Inr (baseHashRate config * (hashRateMultiplier config powi (level - 1))))"

text \<open>The \<^verbatim>\<open>reduce\<close> of \<^verbatim>\<open>calculateTotalHashRate\<close>, with its running total.\<close>

fun reduce_total :: "real \<Rightarrow> (string \<times> int) list \<Rightarrow> js_error + real" where
  "reduce_total tot [] = Inr tot"
| "reduce_total tot ((part, level) # rest) =
     (case calculateHashRate part level of
        Inl e \<Rightarrow> Inl e
      | Inr h \<Rightarrow> reduce_total (tot + h) rest)"

definition calculateTotalHashRate :: "(string \<times> int) list \<Rightarrow> js_error + real" where
  "calculateTotalHashRate ps = reduce_total 0 ps"

definition earningsMultiplier :: real where
  "earningsMultiplier = 1"

definition calculateEarningsPerSecond :: "(string \<times> int) list \<Rightarrow> js_error + real" where
  "calculateEarningsPerSecond ps =
     (case calculateTotalHashRate ps of
        Inl e \<Rightarrow> Inl e
      | Inr totalHashRate \<Rightarrow> Inr (totalHashRate * earningsMultiplier))"





definition calculateMiningProgress :: "GameState \<Rightarrow> real \<Rightarrow> js_error + real" where
  "calculateMiningProgress gameState elapsedSeconds =
     (case calculateEarningsPerSecond (entries (parts gameState)) of
        Inl e \<Rightarrow> Inl e
      | Inr earningsPerSecond \<Rightarrow> Inr (earningsPerSecond * elapsedSeconds))"

section \<open>Game state store (context/GameContext.tsx)\<close>

datatype GameAction =
    UPDATE_BALANCE real
  | UPGRADE_PART part_key int
  | SET_GAME_STATE GameState
  | START_MINING
  | STOP_MINING
  | UPDATE_MINING_PROGRESS
  | UPDATE_OFFLINE_PROGRESS real int
  | SHOW_OFFLINE_EARNINGS real int

definition initialState :: "int \<Rightarrow> GameState" where
  "initialState t =
     \<lparr>balance = 0,
      parts = \<lparr>cpu = 1, gpu = 1, motherboard = 1, psu = 1, ram = 1\<rparr>,
      hashRates = map_of [(''cpu'', 5 / 10), (''gpu'', 1), (''motherboard'', 3 / 10),
                          (''psu'', 2 / 10), (''ram'', 4 / 10)],
      lastUpdated = t,
      isMining = False,
      totalMined = 0,
      miningStartTime = None,
      version = 0\<rparr>"

text \<open>The reducer; \<open>now\<close> is the instant \<^verbatim>\<open>new Date()\<close> reads.\<close>

fun gameReducer :: "GameState \<Rightarrow> GameAction \<Rightarrow> int \<Rightarrow> js_error + GameState" where
  "gameReducer state (UPDATE_BALANCE payload) now =
     Inr (state\<lparr>balance := payload, lastUpdated := now\<rparr>)"
| "gameReducer state (UPGRADE_PART part level) now =
     Inr (state\<lparr>parts := set_level part level (parts state), lastUpdated := now\<rparr>)"
| "gameReducer state (SET_GAME_STATE payload) now =
     Inr (payload\<lparr>lastUpdated := now\<rparr>)"
| "gameReducer state START_MINING now =
     Inr (state\<lparr>isMining := True, miningStartTime := Some now\<rparr>)"
| "gameReducer state STOP_MINING now =
     Inr (state\<lparr>isMining := False, miningStartTime := None, lastUpdated := now\<rparr>)"
| "gameReducer state UPDATE_MINING_PROGRESS now =
     (case calculateMiningProgress state 1 of
        Inl e \<Rightarrow> Inl e
      | Inr earned \<Rightarrow>
          Inr (state\<lparr>balance := balance state + earned,
                     totalMined := totalMined state + earned,
                     lastUpdated := now\<rparr>))"
| "gameReducer state (UPDATE_OFFLINE_PROGRESS earned offline) now =
     Inr (state\<lparr>balance := balance state + earned,
                totalMined := totalMined state + earned,
                lastUpdated := now\<rparr>)"
| "gameReducer state (SHOW_OFFLINE_EARNINGS earned offline) now = Inr state"

subsection \<open>The invariant of the store and the preconditions of its transitions\<close>

definition all_keys :: "part_key list" where
  "all_keys = [Cpu, Gpu, Motherboard, Psu, Ram]"

definition within_max :: "PartInventory \<Rightarrow> bool" where
  "within_max p =
     list_all (\<lambda>k. case partConfigs (key_name k) of
                        None \<Rightarrow> False
                      | Some config \<Rightarrow> level_of p k \<le> maxLevel config) all_keys"

definition no_level_decrease :: "PartInventory \<Rightarrow> PartInventory \<Rightarrow> bool" where
  "no_level_decrease p p' = list_all (\<lambda>k. level_of p k \<le> level_of p' k) all_keys"

text \<open>The preconditions under which the invariant is claimed: an upgrade goes one level up
  and not beyond the part's maximum, offline earnings are not negative, and the transition
  is not the replacement of the whole state. The other transitions need none.\<close>

fun precondition :: "GameState \<Rightarrow> GameAction \<Rightarrow> bool" where
  "precondition state (UPGRADE_PART part newLevel) =
     (newLevel = level_of (parts state) part + 1 \<and>
      (case partConfigs (key_name part) of
         None \<Rightarrow> False
       | Some config \<Rightarrow> newLevel \<le> maxLevel config))"
| "precondition state (UPDATE_OFFLINE_PROGRESS earned offline) = (0 \<le> earned)"
| "precondition state (SET_GAME_STATE payload) = False"
| "precondition state action = True"

section \<open>Sync engine (api/gameApi.ts)\<close>

text \<open>
  The module works on a browser and a network. They are modelled as one explicit world
  that every operation takes and returns; operations run one after another.
  \<^item> \<open>token\<close> and \<open>storage\<close> are the two \<^verbatim>\<open>localStorage\<close> slots the module uses (the
    key \<^verbatim>\<open>token\<close> and the key \<^verbatim>\<open>crypto_miner_state\<close>);
  \<^item> \<open>onLine\<close> is \<^verbatim>\<open>navigator.onLine\<close>;
  \<^item> \<open>clock n\<close> is the value that the \<open>n\<close>-th read of \<^verbatim>\<open>Date.now()\<close> returns, whatever
    time has passed by then, and \<open>clockReads\<close> counts the reads made so far;
  \<^item> \<open>net\<close> gives the outcome of the \<open>n\<close>-th request the client sends, for any behaviour of
    the server and the connection; \<open>sent\<close> logs the requests in the order they are sent;
  \<^item> \<open>delays\<close> logs the durations handed to \<^verbatim>\<open>setTimeout\<close> by the retry loop, in order;
  \<^item> \<open>operationQueue\<close> is the module's queue; \<open>nextRef\<close> names the next queued object,
    since the queue is filtered by object identity;
  \<^item> \<open>debouncePending\<close> and \<open>debounceResult\<close> are the state of the debounce wrapper around
    the save: the argument of the last call that is still waiting for the timer, and what
    the last invocation of the wrapped function returned (nothing before the first one).
  A stored or received JSON text is either the serialisation of a state that passes
  \<^verbatim>\<open>GameStateSchema\<close> or something that does not parse or validate.
\<close>

datatype json_doc = StateDoc GameState | Malformed

definition GameStateSchema_parse :: "json_doc \<Rightarrow> js_error + GameState" where
  "GameStateSchema_parse doc = (case doc of StateDoc g \<Rightarrow> Inr g | Malformed \<Rightarrow> Inl ZodError)"

text \<open>\<^verbatim>\<open>error.message\<close>: the text given to \<^verbatim>\<open>new Error\<close>, or the text a library put
  into its own error, which is kept symbolic.\<close>

datatype js_msg = Text string | MessageOf js_error

fun message :: "js_error \<Rightarrow> js_msg" where
  "message (Error m) = Text m"
| "message e = MessageOf e"

fun isAxiosError :: "js_error \<Rightarrow> bool" where
  "isAxiosError (AxiosError r) = True"
| "isAxiosError e = False"

text \<open>\<^verbatim>\<open>error.response\<close>, by its status; absent on any error that is not an axios error
  with a response.\<close>

fun response :: "js_error \<Rightarrow> nat option" where
  "response (AxiosError r) = r"
| "response e = None"

record 'a ApiResponse =
  success :: bool
  data :: "'a option"
  error :: "js_msg option"
  warning :: "string option"

text \<open>A queued operation: its \<^verbatim>\<open>type\<close> tag together with the \<^verbatim>\<open>data\<close> that the push
  site of that tag stores, the time of the push, and the identity of the object.\<close>

datatype queued_data =
    SaveData GameState
  | UpgradeData part_key int
  | BalanceData real

record QueuedOperation =
  payload :: queued_data
  timestamp :: int
  ref :: nat

text \<open>The two requests of the module: \<^verbatim>\<open>GET /game/load\<close> with the bearer token, and
  \<^verbatim>\<open>POST /game/save\<close> with the bearer token, the number whose \<^verbatim>\<open>String\<close> is the
  \<^verbatim>\<open>If-Match\<close> header, and the \<^verbatim>\<open>gameState\<close> of the body.\<close>

datatype request =
    GET_load string
  | POST_save string int GameState

fun is_write :: "request \<Rightarrow> bool" where
  "is_write (POST_save tok ifMatch body) = True"
| "is_write (GET_load tok) = False"

datatype outcome = NoResponse | Response nat json_doc

record world =
  token :: "string option"
  storage :: "json_doc option"
  onLine :: bool
  clock :: "nat \<Rightarrow> int"
  clockReads :: nat
  net :: "nat \<Rightarrow> outcome"
  sent :: "request list"
  delays :: "int list"
  operationQueue :: "QueuedOperation list"
  nextRef :: nat
  debouncePending :: "GameState option"
  debounceResult :: "unit ApiResponse option"

definition MAX_RETRY_ATTEMPTS :: nat where
  "MAX_RETRY_ATTEMPTS = 3"

text \<open>One axios call: the request is sent; a response with a status in \<open>200..299\<close>
  resolves with its body, any other response rejects with an error that carries it, and no
  response (connection failure, timeout) rejects with an error that carries none.\<close>

definition axios_request :: "request \<Rightarrow> world \<Rightarrow> (js_error + json_doc) \<times> world" where
  "axios_request req w =
     (let w' = w\<lparr>sent := sent w @ [req]\<rparr>
      in case net w (length (sent w)) of
           NoResponse \<Rightarrow> (Inl (AxiosError None), w')
         | Response status body \<Rightarrow>
             if 200 \<le> status \<and> status < 300 then (Inr body, w')
             else (Inl (AxiosError (Some status)), w'))"

fun retryWithBackoff ::
  "(world \<Rightarrow> (js_error + 'a) \<times> world) \<Rightarrow> nat \<Rightarrow> world \<Rightarrow> (js_error + 'a) \<times> world" where
  "retryWithBackoff operation retries w =
     (case operation w of
        (Inr v, w') \<Rightarrow> (Inr v, w')
      | (Inl err, w') \<Rightarrow>
          if retries > 0 \<and> isAxiosError err \<and> response err = None then
            retryWithBackoff operation (retries - 1)
              (w'\<lparr>delays := delays w' @
                    [min (1000 * (int MAX_RETRY_ATTEMPTS - int retries + 1)) 5000]\<rparr>)
          else (Inl err, w'))"

declare retryWithBackoff.simps [simp del]

definition succeed :: "'a \<Rightarrow> 'a ApiResponse" where
  "succeed v = \<lparr>success = True, data = Some v, error = None, warning = None\<rparr>"

definition succeed_void :: "unit ApiResponse" where
  "succeed_void = \<lparr>success = True, data = None, error = None, warning = None\<rparr>"

definition queued :: "string \<Rightarrow> unit ApiResponse" where
  "queued text = \<lparr>success = True, data = None, error = None, warning = Some text\<rparr>"

definition failure :: "js_msg \<Rightarrow> 'a ApiResponse" where
  "failure m = \<lparr>success = False, data = None, error = Some m, warning = None\<rparr>"

text \<open>\<^verbatim>\<open>operationQueue.push({ type, data, timestamp: Date.now() })\<close>: the clock is
  read at the push.\<close>

definition enqueue :: "queued_data \<Rightarrow> world \<Rightarrow> world" where
  "enqueue d w =
     w\<lparr>operationQueue := operationQueue w @
          [\<lparr>payload = d, timestamp = clock w (clockReads w), ref = nextRef w\<rparr>],
       clockReads := Suc (clockReads w),
       nextRef := Suc (nextRef w)\<rparr>"

text \<open>The \<^verbatim>\<open>try\<close> block of \<open>fetchGameState\<close>: an empty token is as good as none.\<close>

definition fetch_try :: "world \<Rightarrow> (js_error + GameState) \<times> world" where
  "fetch_try w =
     (case token w of
        None \<Rightarrow> (Inl (Error ''No authentication token found''), w)
      | Some tok \<Rightarrow>
          if tok = [] then (Inl (Error ''No authentication token found''), w)
          else
            (case retryWithBackoff (axios_request (GET_load tok)) MAX_RETRY_ATTEMPTS w of
               (Inl err, w1) \<Rightarrow> (Inl err, w1)
             | (Inr body, w1) \<Rightarrow>
                 (case GameStateSchema_parse body of
                    Inl err \<Rightarrow> (Inl err, w1)
                  | Inr validatedState \<Rightarrow>
                      (Inr validatedState, w1\<lparr>storage := Some (StateDoc validatedState)\<rparr>))))"

text \<open>The \<^verbatim>\<open>catch\<close> block of \<open>fetchGameState\<close>.\<close>

definition fetch_catch :: "js_error \<Rightarrow> world \<Rightarrow> GameState ApiResponse \<times> world" where
  "fetch_catch err w =
     (case (isAxiosError err \<and> response err = None, storage w) of
        (True, Some savedState) \<Rightarrow>
          (case GameStateSchema_parse savedState of
             Inr parsedState \<Rightarrow> (succeed parsedState, w)
           | Inl parseError \<Rightarrow> (failure (Text ''Invalid stored game state''), w))
      | _ \<Rightarrow>
          if isAxiosError err \<and> response err = Some 401
          then (failure (Text ''Authentication required''), w)
          else (failure (message err), w))"

definition fetchGameState :: "world \<Rightarrow> GameState ApiResponse \<times> world" where
  "fetchGameState w =
     (case fetch_try w of
        (Inr validatedState, w') \<Rightarrow> (succeed validatedState, w')
      | (Inl err, w') \<Rightarrow> fetch_catch err w')"

text \<open>
  The function handed to \<^verbatim>\<open>debounce\<close>: its \<^verbatim>\<open>try\<close> block is \<open>save_try\<close>, the
  whole of it is \<open>save_body\<close>.
\<close>

definition save_try :: "GameState \<Rightarrow> world \<Rightarrow> (js_error + unit) \<times> world" where
  "save_try state w =
     (case token w of
        None \<Rightarrow> (Inl (Error ''No authentication token found''), w)
      | Some tok \<Rightarrow>
          if tok = [] then (Inl (Error ''No authentication token found''), w)
          else
            (case retryWithBackoff (axios_request (POST_save tok (version state) state))
                    MAX_RETRY_ATTEMPTS w of
               (Inl err, w1) \<Rightarrow> (Inl err, w1)
             | (Inr body, w1) \<Rightarrow> (Inr (), w1\<lparr>storage := Some (StateDoc state)\<rparr>)))"

definition save_body :: "GameState \<Rightarrow> world \<Rightarrow> unit ApiResponse \<times> world" where
  "save_body state w =
     (case save_try state w of
        (Inr u, w1) \<Rightarrow> (succeed_void, w1)
      | (Inl err, w1) \<Rightarrow>
          if \<not> onLine w1
          then (queued ''Changes queued for sync'', enqueue (SaveData state) w1)
          else (failure (message err), w1))"

text \<open>
  \<^verbatim>\<open>debounce(save_body, 5000, { maxWait: 30000 })\<close>, trailing edge only. A call of
  the wrapper keeps its argument as the one to save, arms the timer, and returns what the
  last invocation of \<open>save_body\<close> returned: \<open>None\<close> (\<^verbatim>\<open>undefined\<close>) when there has been
  none, and never the result of the write that this call asks for. When the timer expires
  (5 seconds after the last call, at most 30 seconds after the first one that is waiting),
  \<open>debounce_fire\<close> invokes \<open>save_body\<close> on the argument kept last and keeps its result.
  The model fixes what a call and an expiry do; when the expiry happens between the calls
  is left to the caller of these two functions.
\<close>

definition debouncedSave :: "GameState \<Rightarrow> world \<Rightarrow> unit ApiResponse option \<times> world" where
  "debouncedSave state w = (debounceResult w, w\<lparr>debouncePending := Some state\<rparr>)"

definition debounce_fire :: "world \<Rightarrow> world" where
  "debounce_fire w =
     (case debouncePending w of
        None \<Rightarrow> w
      | Some lastArgs \<Rightarrow>
          (case save_body lastArgs (w\<lparr>debouncePending := None\<rparr>) of
             (r, w') \<Rightarrow> w'\<lparr>debounceResult := Some r\<rparr>))"

text \<open>The three operations below wrap their whole body in \<^verbatim>\<open>try\<close>; nothing inside
  throws, since \<open>fetchGameState\<close> turns every error into a result and the debounce wrapper
  only returns a kept value. What they resolve to is a result or, through the wrapper,
  \<^verbatim>\<open>undefined\<close>.\<close>

definition saveProgress :: "GameState \<Rightarrow> world \<Rightarrow> unit ApiResponse option \<times> world" where
  "saveProgress state w =
     (case fetchGameState w of
        (currentState, w1) \<Rightarrow>
          (case (success currentState, data currentState) of
             (True, Some d) \<Rightarrow>
               (let serverVersion = version d;
                    newState = state\<lparr>version := serverVersion + 1\<rparr>
                in debouncedSave newState w1)
           | _ \<Rightarrow> (Some (failure (Text ''Failed to fetch current state'')), w1)))"

definition upgradePart ::
  "part_key \<Rightarrow> int \<Rightarrow> world \<Rightarrow> unit ApiResponse option \<times> world" where
  "upgradePart part newLevel w =
     (case fetchGameState w of
        (currentState, w1) \<Rightarrow>
          (case (success currentState, data currentState) of
             (True, Some d) \<Rightarrow>
               (let updatedState = d\<lparr>parts := set_level part newLevel (parts d)\<rparr>;
                    w2 = w1\<lparr>storage := Some (StateDoc updatedState)\<rparr>
                in if \<not> onLine w2
                   then (Some (queued ''Upgrade queued for sync''),
                         enqueue (UpgradeData part newLevel) w2)
                   else saveProgress updatedState w2)
           | _ \<Rightarrow> (Some (failure (Text ''Failed to fetch current state'')), w1)))"

definition updateBalance :: "real \<Rightarrow> world \<Rightarrow> unit ApiResponse option \<times> world" where
  "updateBalance newBalance w =
     (case fetchGameState w of
        (currentState, w1) \<Rightarrow>
          (case (success currentState, data currentState) of
             (True, Some d) \<Rightarrow>
               (let updatedState = d\<lparr>balance := newBalance\<rparr>;
                    w2 = w1\<lparr>storage := Some (StateDoc updatedState)\<rparr>
                in if \<not> onLine w2
                   then (Some (queued ''Balance update queued for sync''),
                         enqueue (BalanceData newBalance) w2)
                   else saveProgress updatedState w2)
           | _ \<Rightarrow> (Some (failure (Text ''Failed to fetch current state'')), w1)))"

text \<open>The \<^verbatim>\<open>switch\<close> of \<open>processQueue\<close> with its \<^verbatim>\<open>await\<close>: the replayed operation
  returns its result, which the loop does not read; it never throws.\<close>

definition replay ::
  "QueuedOperation \<Rightarrow> world \<Rightarrow> (js_error + unit ApiResponse option) \<times> world" where
  "replay operation w =
     (case payload operation of
        SaveData state \<Rightarrow> (case saveProgress state w of (r, w') \<Rightarrow> (Inr r, w'))
      | UpgradeData part level \<Rightarrow> (case upgradePart part level w of (r, w') \<Rightarrow> (Inr r, w'))
      | BalanceData newBalance \<Rightarrow> (case updateBalance newBalance w of (r, w') \<Rightarrow> (Inr r, w')))"

text \<open>The \<^verbatim>\<open>for\<close> loop over the sorted copy: after a replay that returned, the operation
  is filtered out of the queue by identity; the \<^verbatim>\<open>catch\<close> branch breaks.\<close>

fun process_loop :: "QueuedOperation list \<Rightarrow> world \<Rightarrow> world" where
  "process_loop [] w = w"
| "process_loop (operation # rest) w =
     (case replay operation w of
        (Inr r, w') \<Rightarrow>
          process_loop rest
            (w'\<lparr>operationQueue := filter (\<lambda>op. ref op \<noteq> ref operation) (operationQueue w')\<rparr>)
      | (Inl err, w') \<Rightarrow> w')"

definition processQueue :: "world \<Rightarrow> world" where
  "processQueue w =
     (if \<not> onLine w \<or> operationQueue w = [] then w
      else process_loop (sort_key timestamp (operationQueue w)) w)"

text \<open>A world for examples: a token is stored, the cache is empty, the browser reports
  to be online, nothing has been sent, queued or handed to the debounce wrapper, the
  \<open>n\<close>-th read of the clock returns \<open>1000 * n\<close>, and the network behaves as \<open>f\<close> says.\<close>

definition example_world :: "(nat \<Rightarrow> outcome) \<Rightarrow> world" where
  "example_world f =
     \<lparr>token = Some ''t'', storage = None, onLine = True,
      clock = (\<lambda>n. 1000 * int n), clockReads = 0, net = f,
      sent = [], delays = [], operationQueue = [], nextRef = 0,
      debouncePending = None, debounceResult = None\<rparr>"

text \<open>Three balance updates queued with increasing timestamps, in a world that is online
  again; the server answers every request with the stored state, except the fourth request,
  which it answers with status 500.\<close>

definition queued_first :: QueuedOperation where
  "queued_first = \<lparr>payload = BalanceData 10, timestamp = 1, ref = 0\<rparr>"

definition queued_second :: QueuedOperation where
  "queued_second = \<lparr>payload = BalanceData 20, timestamp = 2, ref = 1\<rparr>"

definition queued_third :: QueuedOperation where
  "queued_third = \<lparr>payload = BalanceData 30, timestamp = 3, ref = 2\<rparr>"

definition three_queued_world :: world where
  "three_queued_world =
     (example_world (\<lambda>n. if n = 3 then Response 500 Malformed
                          else Response 200 (StateDoc (initialState 0))))
       \<lparr>operationQueue := [queued_first, queued_second, queued_third], nextRef := 3\<rparr>"

text \<open>A world that is online, in which the server answers the first two requests with the
  stored state and every later request with status 409; and a world that is offline with
  that state in the cache and no response to any request.\<close>

definition conflict_world :: world where
  "conflict_world =
     example_world (\<lambda>n. if n < 2 then Response 200 (StateDoc (initialState 0))
                         else Response 409 Malformed)"

definition offline_world :: world where
  "offline_world =
     (example_world (\<lambda>n. NoResponse))
       \<lparr>onLine := False, storage := Some (StateDoc (initialState 0))\<rparr>"

text \<open>A world that is offline with an empty cache and no response to any request; and a
  world that is online, in which the server answers the first request with the stored
  state and every later request with status 409.\<close>

definition offline_empty_world :: world where
  "offline_empty_world = (example_world (\<lambda>n. NoResponse))\<lparr>onLine := False\<rparr>"

definition rejecting_world :: world where
  "rejecting_world =
     example_world (\<lambda>n. if n = 0 then Response 200 (StateDoc (initialState 0))
                         else Response 409 Malformed)"

section \<open>Properties of the economy model\<close>

lemma floor_scaled_power_strict_mono:
  fixes b m :: real
  assumes m: "1 < m" and b: "1 \<le> b * (m - 1)" and l1: "0 \<le> l1" and lt: "l1 < l2"
  shows "\<lfloor>b * (m powi l1)\<rfloor> < \<lfloor>b * (m powi l2)\<rfloor>"
proof -
  have bpos: "0 < b"
  proof (rule ccontr)
    assume "\<not> 0 < b"
    then have "b * (m - 1) \<le> 0" using m by (simp add: mult_le_0_iff)
    with b show False by simp
  qed
  have p1: "1 \<le> m powi l1" using m l1 by (simp add: one_le_power_int)
  have step: "m powi (l1 + 1) \<le> m powi l2"
    using m lt by (intro power_int_increasing) auto
  have "m powi (l1 + 1) = m powi l1 * m"
    using m by (simp add: power_int_add)
  with step have "m powi l1 * m \<le> m powi l2" by simp
  then have "b * (m powi l1 * m) \<le> b * (m powi l2)"
    using bpos by simp
  moreover have "b * (m powi l1) + 1 \<le> b * (m powi l1 * m)"
  proof -
    have "b * (m - 1) * 1 \<le> b * (m - 1) * (m powi l1)"
      using p1 b by (intro mult_left_mono) auto
    then have "1 \<le> b * (m - 1) * (m powi l1)" using b by simp
    then show ?thesis by (simp add: algebra_simps)
  qed
  ultimately have "b * (m powi l1) + 1 \<le> b * (m powi l2)" by simp
  then have "\<lfloor>b * (m powi l1) + 1\<rfloor> \<le> \<lfloor>b * (m powi l2)\<rfloor>" by (rule floor_mono)
  then show ?thesis by simp
qed

lemma scaled_power_strict_mono:
  fixes b m :: real
  assumes "1 < m" "0 < b" "l1 < l2"
  shows "b * (m powi (l1 - 1)) < b * (m powi (l2 - 1))"
proof -
  have "m powi (l1 - 1) < m powi (l2 - 1)"
    using assms by (intro power_int_strict_increasing) auto
  then show ?thesis using assms by simp
qed

lemma partConfigs_cases:
  assumes "partConfigs part = Some config"
  shows "part \<in> {''cpu'', ''gpu'', ''motherboard'', ''psu'', ''ram''} \<and>
         1 < priceMultiplier config \<and> 1 \<le> basePrice config * (priceMultiplier config - 1) \<and>
         1 < hashRateMultiplier config \<and> 0 < baseHashRate config"
  using assms by (auto simp: partConfigs_def split: if_splits)

text \<open>
  Claim C8. For every configured part identifier (the five keys of \<open>partConfigs\<close>) and
  all levels \<open>1 \<le> l1 < l2 \<le> maxLevel\<close> of that part, the upgrade cost, which is
  \<open>\<lfloor>basePrice * priceMultiplier ^ l\<rfloor>\<close>, and the hash rate are strictly smaller at \<open>l1\<close>
  than at \<open>l2\<close>.
\<close>

theorem upgradeCost_hashRate_strictly_increasing:
  assumes cfg: "partConfigs part = Some config"
    and lo: "1 \<le> l1" and lt: "l1 < l2" and hi: "l2 \<le> maxLevel config"
  shows "part \<in> {''cpu'', ''gpu'', ''motherboard'', ''psu'', ''ram''} \<and>
    (\<exists>c1 c2 h1 h2.
       calculateUpgradeCost part l1 = Inr c1 \<and> calculateUpgradeCost part l2 = Inr c2 \<and>
       c1 = \<lfloor>basePrice config * priceMultiplier config ^ nat l1\<rfloor> \<and>
       c2 = \<lfloor>basePrice config * priceMultiplier config ^ nat l2\<rfloor> \<and>
       c1 < c2 \<and>
       calculateHashRate part l1 = Inr h1 \<and> calculateHashRate part l2 = Inr h2 \<and>
       h1 < h2)"
proof -
  note facts = partConfigs_cases [OF cfg]
  have powi1: "priceMultiplier config powi l1 = priceMultiplier config ^ nat l1"
    using lo by (simp add: power_int_def)
  have powi2: "priceMultiplier config powi l2 = priceMultiplier config ^ nat l2"
    using lo lt by (simp add: power_int_def)
  have "\<lfloor>basePrice config * (priceMultiplier config powi l1)\<rfloor>
          < \<lfloor>basePrice config * (priceMultiplier config powi l2)\<rfloor>"
    using facts lo lt by (intro floor_scaled_power_strict_mono) auto
  then have cost: "\<lfloor>basePrice config * priceMultiplier config ^ nat l1\<rfloor>
          < \<lfloor>basePrice config * priceMultiplier config ^ nat l2\<rfloor>"
    by (simp only: powi1 powi2)
  have hash: "baseHashRate config * (hashRateMultiplier config powi (l1 - 1))
          < baseHashRate config * (hashRateMultiplier config powi (l2 - 1))"
    using facts lt by (intro scaled_power_strict_mono) auto
  show ?thesis
    using facts cost hash
    by (simp add: calculateUpgradeCost_def calculateHashRate_def cfg powi1 powi2)
qed

theorem upgradeCost_hashRate_strictly_increasing_witness:
  "partConfigs ''psu'' = Some \<lparr>maxLevel = 12, baseHashRate = 2 / 10, basePrice = 60,
                 priceMultiplier = 135 / 100, hashRateMultiplier = 11 / 10\<rparr> \<and>
   (1::int) \<le> 1 \<and> (1::int) < 2 \<and> (2::int) \<le> 12 \<and>
   calculateUpgradeCost ''psu'' 1 = Inr 81 \<and> calculateUpgradeCost ''psu'' 2 = Inr 109 \<and>
   calculateHashRate ''psu'' 1 = Inr (2 / 10) \<and> calculateHashRate ''psu'' 2 = Inr (22 / 100)"
  using upgradeCost_hashRate_strictly_increasing [of "''psu''" "\<lparr>maxLevel = 12, baseHashRate = 2 / 10, basePrice = 60,
                 priceMultiplier = 135 / 100, hashRateMultiplier = 11 / 10\<rparr>" 1 2]
  by (simp add: calculateUpgradeCost_def calculateHashRate_def partConfigs_def power_divide)

lemma reduce_total_entries:
  "reduce_total tot (entries p) =
     Inr (tot + 5 / 10 * ((12 / 10) powi (cpu p - 1)) + 1 * ((13 / 10) powi (gpu p - 1))
            + 3 / 10 * ((115 / 100) powi (motherboard p - 1))
            + 2 / 10 * ((11 / 10) powi (psu p - 1))
            + 4 / 10 * ((125 / 100) powi (ram p - 1)))"
  by (simp add: entries_def calculateHashRate_def partConfigs_def)

lemma earningsPerSecond_entries:
  "\<exists>eps. calculateEarningsPerSecond (entries p) = Inr eps \<and> 0 < eps"
proof -
  have "0 < 5 / 10 * ((12 / 10) powi (cpu p - 1)) + 1 * ((13 / 10) powi (gpu p - 1))
            + 3 / 10 * ((115 / 100) powi (motherboard p - 1))
            + 2 / 10 * ((11 / 10) powi (psu p - 1))
            + 4 / 10 * ((125 / 100) powi (ram p - 1 :: int) :: real)"
    by (intro add_pos_pos mult_pos_pos zero_less_power_int) simp_all
  then show ?thesis
    by (simp add: calculateEarningsPerSecond_def calculateTotalHashRate_def
        reduce_total_entries earningsMultiplier_def)
qed





section \<open>Properties of the game state store\<close>

lemma tick_step:
  assumes "calculateEarningsPerSecond (entries (parts s)) = Inr eps"
  shows "gameReducer s UPDATE_MINING_PROGRESS now =
           Inr (s\<lparr>balance := balance s + eps * 1, totalMined := totalMined s + eps * 1,
                  lastUpdated := now\<rparr>)"
  using assms by (simp add: calculateMiningProgress_def)

lemma within_max_simp:
  "within_max p \<longleftrightarrow> cpu p \<le> 25 \<and> gpu p \<le> 20 \<and> motherboard p \<le> 15 \<and> psu p \<le> 12 \<and> ram p \<le> 18"
  by (simp add: within_max_def all_keys_def partConfigs_def)

lemma no_level_decrease_simp:
  "no_level_decrease p p' \<longleftrightarrow> cpu p \<le> cpu p' \<and> gpu p \<le> gpu p' \<and>
     motherboard p \<le> motherboard p' \<and> psu p \<le> psu p' \<and> ram p \<le> ram p'"
  by (simp add: no_level_decrease_def all_keys_def)

text \<open>
  Claim C9. Every transition of the store other than \<open>SET_GAME_STATE\<close>, applied under its
  precondition (an upgrade to the current level plus one and at most the maximum, offline
  earnings that are not negative), returns a state in which no part's level is lower than
  before, every level is still at most the configured maximum if it was before, and
  \<open>totalMined\<close> is not smaller than before.
\<close>

theorem transitions_preserve_invariant:
  assumes "precondition s a"
  shows "\<exists>s'. gameReducer s a now = Inr s' \<and>
              no_level_decrease (parts s) (parts s') \<and>
              (within_max (parts s) \<longrightarrow> within_max (parts s')) \<and>
              totalMined s \<le> totalMined s'"
proof (cases a)
  case (UPGRADE_PART part newLevel)
  then show ?thesis
    using assms
    by (cases part) (simp_all add: within_max_simp no_level_decrease_simp partConfigs_def)
next
  case UPDATE_MINING_PROGRESS
  obtain eps where eps: "calculateEarningsPerSecond (entries (parts s)) = Inr eps" "0 < eps"
    using earningsPerSecond_entries by blast
  then show ?thesis
    using UPDATE_MINING_PROGRESS tick_step [OF eps(1), of now]
    by (simp add: no_level_decrease_simp)
qed (use assms in \<open>simp_all add: no_level_decrease_simp\<close>)

theorem transitions_preserve_invariant_witness:
  "precondition (initialState 0) (UPGRADE_PART Cpu 2) \<and>
   within_max (parts (initialState 0)) \<and>
   (\<exists>s'. gameReducer (initialState 0) (UPGRADE_PART Cpu 2) 1000 = Inr s' \<and>
         parts s' = \<lparr>cpu = 2, gpu = 1, motherboard = 1, psu = 1, ram = 1\<rparr> \<and>
         no_level_decrease (parts (initialState 0)) (parts s') \<and>
         within_max (parts s') \<and> totalMined (initialState 0) \<le> totalMined s')"
proof -
  have p: "precondition (initialState 0) (UPGRADE_PART Cpu 2)"
    by (simp add: initialState_def partConfigs_def)
  have w: "within_max (parts (initialState 0))"
    by (simp add: initialState_def within_max_simp)
  from transitions_preserve_invariant [OF p, of 1000] w
  obtain s' where s': "gameReducer (initialState 0) (UPGRADE_PART Cpu 2) 1000 = Inr s'"
     "no_level_decrease (parts (initialState 0)) (parts s')"
     "within_max (parts s')" "totalMined (initialState 0) \<le> totalMined s'"
    by blast
  from s'(1) have "parts s' = \<lparr>cpu = 2, gpu = 1, motherboard = 1, psu = 1, ram = 1\<rparr>"
    by (auto simp: initialState_def)
  with p w s' show ?thesis by blast
qed

section \<open>Properties of the sync engine\<close>

lemma retry_0:
  "retryWithBackoff operation 0 w = operation w"
  by (simp add: retryWithBackoff.simps split: prod.splits sum.splits)

lemma retry_Suc:
  "retryWithBackoff operation (Suc n) w =
     (case operation w of
        (Inr v, w') \<Rightarrow> (Inr v, w')
      | (Inl err, w') \<Rightarrow>
          if isAxiosError err \<and> response err = None then
            retryWithBackoff operation n
              (w'\<lparr>delays := delays w' @
                    [min (1000 * (int MAX_RETRY_ATTEMPTS - int (Suc n) + 1)) 5000]\<rparr>)
          else (Inl err, w'))"
  by (subst retryWithBackoff.simps) (simp split: prod.splits sum.splits)

lemma axios_no_response:
  "net w (length (sent w)) = NoResponse \<Longrightarrow>
   axios_request req w = (Inl (AxiosError None), w\<lparr>sent := sent w @ [req]\<rparr>)"
  by (simp add: axios_request_def)

lemma axios_response:
  "net w (length (sent w)) = Response st body \<Longrightarrow>
   axios_request req w =
     (if 200 \<le> st \<and> st < 300 then Inr body else Inl (AxiosError (Some st)),
      w\<lparr>sent := sent w @ [req]\<rparr>)"
  by (simp add: axios_request_def Let_def)

lemma retry_not_retried:
  assumes "operation w = (Inl err, w')" and "\<not> (isAxiosError err \<and> response err = None)"
  shows "retryWithBackoff operation n w = (Inl err, w')"
  using assms by (subst retryWithBackoff.simps) auto

lemma retry_response:
  assumes "j \<le> n"
    and "\<forall>i<j. net w (length (sent w) + i) = NoResponse"
    and "net w (length (sent w) + j) = Response st body"
  shows "retryWithBackoff (axios_request req) n w =
     (if 200 \<le> st \<and> st < 300 then Inr body else Inl (AxiosError (Some st)),
      w\<lparr>sent := sent w @ replicate (Suc j) req,
        delays := delays w @
          map (\<lambda>i. min (1000 * (int MAX_RETRY_ATTEMPTS - int n + 1 + int i)) 5000) [0..<j]\<rparr>)"
  using assms
proof (induction j arbitrary: n w)
  case 0
  then have r: "net w (length (sent w)) = Response st body" by simp
  show ?case
    by (subst retryWithBackoff.simps) (simp add: axios_response [OF r])
next
  case (Suc j)
  then obtain m where n: "n = Suc m" by (cases n) auto
  from Suc.prems have first: "net w (length (sent w)) = NoResponse" by force
  let ?w1 = "w\<lparr>sent := sent w @ [req],
      delays := delays w @ [min (1000 * (int MAX_RETRY_ATTEMPTS - int (Suc m) + 1)) 5000]\<rparr>"
  have step: "retryWithBackoff (axios_request req) (Suc m) w
                = retryWithBackoff (axios_request req) m ?w1"
    by (simp add: retry_Suc axios_no_response [OF first])
  have a: "j \<le> m" using Suc.prems n by simp
  have b: "\<forall>i<j. net ?w1 (length (sent ?w1) + i) = NoResponse"
  proof (intro allI impI)
    fix i assume "i < j"
    then have "net w (length (sent w) + Suc i) = NoResponse" using Suc.prems by auto
    then show "net ?w1 (length (sent ?w1) + i) = NoResponse" by simp
  qed
  have c: "net ?w1 (length (sent ?w1) + j) = Response st body"
    using Suc.prems by simp
  have shift: "map (\<lambda>i. min (1000 * (int MAX_RETRY_ATTEMPTS - int (Suc m) + 1 + int i)) 5000) [0..<Suc j]
      = min (1000 * (int MAX_RETRY_ATTEMPTS - int (Suc m) + 1)) 5000 #
        map (\<lambda>i. min (1000 * (int MAX_RETRY_ATTEMPTS - int m + 1 + int i)) 5000) [0..<j]"
  proof -
    have "[0..<Suc j] = 0 # map Suc [0..<j]"
      using upt_conv_Cons [of 0 "Suc j"] by (simp only: map_Suc_upt zero_less_Suc)
    then show ?thesis by (simp add: comp_def algebra_simps del: upt_Suc)
  qed
  show ?case
    unfolding n step Suc.IH [OF a b c] shift
    by (simp add: replicate_append_same)
qed

lemma retry_exhausted:
  assumes "\<forall>i\<le>n. net w (length (sent w) + i) = NoResponse"
  shows "retryWithBackoff (axios_request req) n w =
     (Inl (AxiosError None),
      w\<lparr>sent := sent w @ replicate (Suc n) req,
        delays := delays w @
          map (\<lambda>i. min (1000 * (int MAX_RETRY_ATTEMPTS - int n + 1 + int i)) 5000) [0..<n]\<rparr>)"
  using assms
proof (induction n arbitrary: w)
  case 0
  then show ?case by (simp add: retry_0 axios_no_response)
next
  case (Suc m)
  from Suc.prems have first: "net w (length (sent w)) = NoResponse" by force
  let ?w1 = "w\<lparr>sent := sent w @ [req],
      delays := delays w @ [min (1000 * (int MAX_RETRY_ATTEMPTS - int (Suc m) + 1)) 5000]\<rparr>"
  have step: "retryWithBackoff (axios_request req) (Suc m) w
                = retryWithBackoff (axios_request req) m ?w1"
    by (simp add: retry_Suc axios_no_response [OF first])
  have b: "\<forall>i\<le>m. net ?w1 (length (sent ?w1) + i) = NoResponse"
  proof (intro allI impI)
    fix i assume "i \<le> m"
    then have "net w (length (sent w) + Suc i) = NoResponse" using Suc.prems by auto
    then show "net ?w1 (length (sent ?w1) + i) = NoResponse" by simp
  qed
  have shift: "map (\<lambda>i. min (1000 * (int MAX_RETRY_ATTEMPTS - int (Suc m) + 1 + int i)) 5000) [0..<Suc m]
      = min (1000 * (int MAX_RETRY_ATTEMPTS - int (Suc m) + 1)) 5000 #
        map (\<lambda>i. min (1000 * (int MAX_RETRY_ATTEMPTS - int m + 1 + int i)) 5000) [0..<m]"
  proof -
    have "[0..<Suc m] = 0 # map Suc [0..<m]"
      using upt_conv_Cons [of 0 "Suc m"] by (simp only: map_Suc_upt zero_less_Suc)
    then show ?thesis by (simp add: comp_def algebra_simps del: upt_Suc)
  qed
  show ?case
    unfolding step Suc.IH [OF b] shift
    by (simp add: replicate_append_same)
qed

text \<open>
  Claim C6. A network call made through \<open>retryWithBackoff\<close> that fails with no response
  is tried again, at most three times; before the \<open>k\<close>-th retry the client waits
  \<open>min (1000 * k) 5000\<close> milliseconds; after four attempts without a response the caller sees
  the failure. The first response ends the attempts at once: a status outside \<open>200..299\<close>
  is thrown to the caller without another attempt.
\<close>

theorem retryWithBackoff_policy:
  "(j \<le> 3 \<and> (\<forall>i<j. net w (length (sent w) + i) = NoResponse) \<and>
    net w (length (sent w) + j) = Response st body \<longrightarrow>
      retryWithBackoff (axios_request req) MAX_RETRY_ATTEMPTS w =
        (if 200 \<le> st \<and> st < 300 then Inr body else Inl (AxiosError (Some st)),
         w\<lparr>sent := sent w @ replicate (Suc j) req,
           delays := delays w @ map (\<lambda>k. min (1000 * int k) 5000) [1..<Suc j]\<rparr>)) \<and>
   ((\<forall>i\<le>3. net w (length (sent w) + i) = NoResponse) \<longrightarrow>
      retryWithBackoff (axios_request req) MAX_RETRY_ATTEMPTS w =
        (Inl (AxiosError None),
         w\<lparr>sent := sent w @ replicate 4 req,
           delays := delays w @ map (\<lambda>k. min (1000 * int k) 5000) [1..<4]\<rparr>))"
proof -
  have conv: "map (\<lambda>i. min (1000 * (int MAX_RETRY_ATTEMPTS - int MAX_RETRY_ATTEMPTS + 1 + int i)) 5000) [0..<m]
      = map (\<lambda>k. min (1000 * int k) 5000) [1..<Suc m]" for m
  proof -
    have "[1..<Suc m] = map Suc [0..<m]"
      by (simp only: map_Suc_upt One_nat_def)
    then show ?thesis by (simp add: comp_def algebra_simps del: upt_Suc)
  qed
  have A: "retryWithBackoff (axios_request req) MAX_RETRY_ATTEMPTS w =
        (if 200 \<le> st \<and> st < 300 then Inr body else Inl (AxiosError (Some st)),
         w\<lparr>sent := sent w @ replicate (Suc j) req,
           delays := delays w @ map (\<lambda>k. min (1000 * int k) 5000) [1..<Suc j]\<rparr>)"
    if "j \<le> 3" "\<forall>i<j. net w (length (sent w) + i) = NoResponse"
       "net w (length (sent w) + j) = Response st body"
  proof -
    have "j \<le> MAX_RETRY_ATTEMPTS" using that by (simp add: MAX_RETRY_ATTEMPTS_def)
    from retry_response [OF this that(2) that(3), of req] show ?thesis
      by (simp only: conv)
  qed
  have B: "retryWithBackoff (axios_request req) MAX_RETRY_ATTEMPTS w =
        (Inl (AxiosError None),
         w\<lparr>sent := sent w @ replicate 4 req,
           delays := delays w @ map (\<lambda>k. min (1000 * int k) 5000) [1..<4]\<rparr>)"
    if "\<forall>i\<le>3. net w (length (sent w) + i) = NoResponse"
  proof -
    have "\<forall>i\<le>MAX_RETRY_ATTEMPTS. net w (length (sent w) + i) = NoResponse"
      using that by (simp add: MAX_RETRY_ATTEMPTS_def)
    from retry_exhausted [OF this, of req] have
      "retryWithBackoff (axios_request req) MAX_RETRY_ATTEMPTS w =
        (Inl (AxiosError None),
         w\<lparr>sent := sent w @ replicate (Suc MAX_RETRY_ATTEMPTS) req,
           delays := delays w @ map (\<lambda>k. min (1000 * int k) 5000) [1..<Suc MAX_RETRY_ATTEMPTS]\<rparr>)"
      by (simp only: conv)
    then show ?thesis by (simp add: MAX_RETRY_ATTEMPTS_def)
  qed
  from A B show ?thesis by blast
qed

theorem retryWithBackoff_policy_witness:
  "retryWithBackoff (axios_request (GET_load ''t'')) MAX_RETRY_ATTEMPTS
      (example_world (\<lambda>n. if n < 2 then NoResponse else Response 500 Malformed)) =
     (Inl (AxiosError (Some 500)),
      (example_world (\<lambda>n. if n < 2 then NoResponse else Response 500 Malformed))
        \<lparr>sent := [GET_load ''t'', GET_load ''t'', GET_load ''t''], delays := [1000, 2000]\<rparr>) \<and>
   retryWithBackoff (axios_request (GET_load ''t'')) MAX_RETRY_ATTEMPTS
      (example_world (\<lambda>n. Response 401 Malformed)) =
     (Inl (AxiosError (Some 401)),
      (example_world (\<lambda>n. Response 401 Malformed))\<lparr>sent := [GET_load ''t''], delays := []\<rparr>) \<and>
   retryWithBackoff (axios_request (GET_load ''t'')) MAX_RETRY_ATTEMPTS
      (example_world (\<lambda>n. NoResponse)) =
     (Inl (AxiosError None),
      (example_world (\<lambda>n. NoResponse))
        \<lparr>sent := [GET_load ''t'', GET_load ''t'', GET_load ''t'', GET_load ''t''],
         delays := [1000, 2000, 3000]\<rparr>)"
proof -
  have up3: "[Suc 0..<3] = [1, 2]" "[Suc 0..<4] = [1, 2, 3]"
    by (simp_all add: upt_rec)
  have r3: "replicate 3 x = [x, x, x]" "replicate 4 x = [x, x, x, x]" for x :: request
    by (simp_all add: numeral_eq_Suc)
  show ?thesis
    using retryWithBackoff_policy [of 2 "example_world (\<lambda>n. if n < 2 then NoResponse else Response 500 Malformed)" 500 Malformed "GET_load ''t''"]
      retryWithBackoff_policy [of 0 "example_world (\<lambda>n. Response 401 Malformed)" 401 Malformed "GET_load ''t''"]
      retryWithBackoff_policy [of 0 "example_world (\<lambda>n. NoResponse)" 0 Malformed "GET_load ''t''"]
    by (simp add: example_world_def up3 r3 del: upt_Suc)
qed

lemma retry_axios_result:
  "\<exists>k ds. 1 \<le> k \<and> k \<le> Suc n \<and>
     ((\<exists>body st m. 200 \<le> st \<and> st < 300 \<and> net w m = Response st body \<and>
         retryWithBackoff (axios_request req) n w =
           (Inr body, w\<lparr>sent := sent w @ replicate k req, delays := delays w @ ds\<rparr>)) \<or>
      (\<exists>r. retryWithBackoff (axios_request req) n w =
           (Inl (AxiosError r), w\<lparr>sent := sent w @ replicate k req, delays := delays w @ ds\<rparr>)))"
proof (induction n arbitrary: w)
  case 0
  show ?case
  proof (cases "net w (length (sent w))")
    case NoResponse
    have "retryWithBackoff (axios_request req) 0 w =
            (Inl (AxiosError None), w\<lparr>sent := sent w @ replicate 1 req, delays := delays w @ []\<rparr>)"
      by (simp add: retry_0 axios_no_response [OF NoResponse])
    then show ?thesis by (intro exI [of _ 1] exI [of _ "[]"]) simp
  next
    case (Response st body)
    have "retryWithBackoff (axios_request req) 0 w =
            (if 200 \<le> st \<and> st < 300 then Inr body else Inl (AxiosError (Some st)),
             w\<lparr>sent := sent w @ replicate 1 req, delays := delays w @ []\<rparr>)"
      by (simp add: retry_0 axios_response [OF Response])
    with Response show ?thesis
      by (intro exI [of _ 1] exI [of _ "[]"]) (cases "200 \<le> st \<and> st < 300"; force)
  qed
next
  case (Suc n)
  show ?case
  proof (cases "net w (length (sent w))")
    case NoResponse
    let ?d = "min (1000 * (int MAX_RETRY_ATTEMPTS - int (Suc n) + 1)) 5000"
    let ?w1 = "w\<lparr>sent := sent w @ [req], delays := delays w @ [?d]\<rparr>"
    have step: "retryWithBackoff (axios_request req) (Suc n) w
                  = retryWithBackoff (axios_request req) n ?w1"
      by (simp add: retry_Suc axios_no_response [OF NoResponse])
    have upd: "?w1\<lparr>sent := sent ?w1 @ replicate k req, delays := delays ?w1 @ ds\<rparr>
               = w\<lparr>sent := sent w @ replicate (Suc k) req, delays := delays w @ (?d # ds)\<rparr>"
      for k ds by simp
    from Suc.IH [of ?w1] obtain k ds where k: "1 \<le> k" "k \<le> Suc n" and
      alt: "(\<exists>body st m. 200 \<le> st \<and> st < 300 \<and> net ?w1 m = Response st body \<and>
         retryWithBackoff (axios_request req) n ?w1 =
           (Inr body, ?w1\<lparr>sent := sent ?w1 @ replicate k req, delays := delays ?w1 @ ds\<rparr>)) \<or>
      (\<exists>r. retryWithBackoff (axios_request req) n ?w1 =
           (Inl (AxiosError r), ?w1\<lparr>sent := sent ?w1 @ replicate k req, delays := delays ?w1 @ ds\<rparr>))"
      by blast
    have net1: "net ?w1 = net w" by simp
    from alt have "(\<exists>body st m. 200 \<le> st \<and> st < 300 \<and> net w m = Response st body \<and>
         retryWithBackoff (axios_request req) (Suc n) w =
           (Inr body, w\<lparr>sent := sent w @ replicate (Suc k) req, delays := delays w @ (?d # ds)\<rparr>)) \<or>
      (\<exists>r. retryWithBackoff (axios_request req) (Suc n) w =
           (Inl (AxiosError r), w\<lparr>sent := sent w @ replicate (Suc k) req, delays := delays w @ (?d # ds)\<rparr>))"
      unfolding step upd net1 .
    with k show ?thesis
      by (intro exI [of _ "Suc k"] exI [of _ "?d # ds"]) simp
  next
    case (Response st body)
    have "retryWithBackoff (axios_request req) (Suc n) w =
            (if 200 \<le> st \<and> st < 300 then Inr body else Inl (AxiosError (Some st)),
             w\<lparr>sent := sent w @ replicate 1 req, delays := delays w @ []\<rparr>)"
      by (simp add: retry_Suc axios_response [OF Response])
    with Response show ?thesis
      by (intro exI [of _ 1] exI [of _ "[]"]) (cases "200 \<le> st \<and> st < 300"; force)
  qed
qed

text \<open>
  Claim C5. With a token stored: when the load receives a response in \<open>200..299\<close> whose
  state validates, \<open>fetchGameState\<close> writes that state to the cache and returns it; when all
  attempts end without a response, it returns the cached copy if one is stored and
  validates, and a failure if the cache is empty or does not validate; when the response is
  a 401, it returns the failure \<open>Authentication required\<close>, and the cache is neither read
  nor changed.
\<close>

theorem fetchGameState_outcomes:
  assumes tok: "token w = Some tok" "tok \<noteq> []"
  shows
   "(j \<le> 3 \<and> (\<forall>i<j. net w (length (sent w) + i) = NoResponse) \<and>
     net w (length (sent w) + j) = Response st body \<longrightarrow>
       (200 \<le> st \<and> st < 300 \<and> body = StateDoc g \<longrightarrow>
          fst (fetchGameState w) = succeed g \<and>
          storage (snd (fetchGameState w)) = Some (StateDoc g)) \<and>
       (st = 401 \<longrightarrow>
          fst (fetchGameState w) = failure (Text ''Authentication required'') \<and>
          storage (snd (fetchGameState w)) = storage w)) \<and>
    ((\<forall>i\<le>3. net w (length (sent w) + i) = NoResponse) \<longrightarrow>
       storage (snd (fetchGameState w)) = storage w \<and>
       (storage w = Some (StateDoc c) \<longrightarrow> fst (fetchGameState w) = succeed c) \<and>
       (storage w = Some Malformed \<longrightarrow>
          fst (fetchGameState w) = failure (Text ''Invalid stored game state'')) \<and>
       (storage w = None \<longrightarrow>
          fst (fetchGameState w) = failure (MessageOf (AxiosError None))))"
proof -
  have A: "fst (fetchGameState w) = succeed g \<and>
          storage (snd (fetchGameState w)) = Some (StateDoc g)"
    if "j \<le> 3" "\<forall>i<j. net w (length (sent w) + i) = NoResponse"
       "net w (length (sent w) + j) = Response st body" "200 \<le> st \<and> st < 300" "body = StateDoc g"
  proof -
    have "j \<le> MAX_RETRY_ATTEMPTS" using that by (simp add: MAX_RETRY_ATTEMPTS_def)
    from retry_response [OF this that(2) that(3), of "GET_load tok"] that(4,5) tok
    show ?thesis
      by (simp add: fetchGameState_def fetch_try_def GameStateSchema_parse_def)
  qed
  have B: "fst (fetchGameState w) = failure (Text ''Authentication required'') \<and>
          storage (snd (fetchGameState w)) = storage w"
    if "j \<le> 3" "\<forall>i<j. net w (length (sent w) + i) = NoResponse"
       "net w (length (sent w) + j) = Response st body" "st = 401"
  proof -
    have "j \<le> MAX_RETRY_ATTEMPTS" using that by (simp add: MAX_RETRY_ATTEMPTS_def)
    from retry_response [OF this that(2) that(3), of "GET_load tok"] that(4) tok
    show ?thesis
      by (simp add: fetchGameState_def fetch_try_def fetch_catch_def split: option.splits)
  qed
  have C: "storage (snd (fetchGameState w)) = storage w \<and>
       (storage w = Some (StateDoc c) \<longrightarrow> fst (fetchGameState w) = succeed c) \<and>
       (storage w = Some Malformed \<longrightarrow>
          fst (fetchGameState w) = failure (Text ''Invalid stored game state'')) \<and>
       (storage w = None \<longrightarrow>
          fst (fetchGameState w) = failure (MessageOf (AxiosError None)))"
    if "\<forall>i\<le>3. net w (length (sent w) + i) = NoResponse"
  proof -
    have "\<forall>i\<le>MAX_RETRY_ATTEMPTS. net w (length (sent w) + i) = NoResponse"
      using that by (simp add: MAX_RETRY_ATTEMPTS_def)
    from retry_exhausted [OF this, of "GET_load tok"] tok
    show ?thesis
      by (auto simp: fetchGameState_def fetch_try_def fetch_catch_def GameStateSchema_parse_def
          split: option.splits json_doc.splits)
  qed
  from A B C show ?thesis by blast
qed

theorem fetchGameState_outcomes_witness:
  "fst (fetchGameState
         (example_world (\<lambda>n. if n < 1 then NoResponse else Response 200 (StateDoc (initialState 0)))))
     = succeed (initialState 0) \<and>
   storage (snd (fetchGameState
         (example_world (\<lambda>n. if n < 1 then NoResponse else Response 200 (StateDoc (initialState 0))))))
     = Some (StateDoc (initialState 0)) \<and>
   fst (fetchGameState
         ((example_world (\<lambda>n. Response 401 Malformed))\<lparr>storage := Some (StateDoc (initialState 0))\<rparr>))
     = failure (Text ''Authentication required'') \<and>
   fst (fetchGameState
         ((example_world (\<lambda>n. NoResponse))\<lparr>storage := Some (StateDoc (initialState 7))\<rparr>))
     = succeed (initialState 7) \<and>
   fst (fetchGameState
         ((example_world (\<lambda>n. NoResponse))\<lparr>storage := Some Malformed\<rparr>))
     = failure (Text ''Invalid stored game state'') \<and>
   fst (fetchGameState (example_world (\<lambda>n. NoResponse)))
     = failure (MessageOf (AxiosError None))"
proof -
  let ?wA = "example_world (\<lambda>n. if n < 1 then NoResponse else Response 200 (StateDoc (initialState 0)))"
  let ?wB = "(example_world (\<lambda>n. Response 401 Malformed))\<lparr>storage := Some (StateDoc (initialState 0))\<rparr>"
  let ?wC = "(example_world (\<lambda>n. NoResponse))\<lparr>storage := Some (StateDoc (initialState 7))\<rparr>"
  let ?wD = "(example_world (\<lambda>n. NoResponse))\<lparr>storage := Some Malformed\<rparr>"
  let ?wE = "example_world (\<lambda>n. NoResponse)"
  have t: "token ?wA = Some ''t''" "token ?wB = Some ''t''" "token ?wC = Some ''t''"
    "token ?wD = Some ''t''" "token ?wE = Some ''t''" "''t'' \<noteq> []"
    by (simp_all add: example_world_def)
  from fetchGameState_outcomes [OF t(1) t(6), of 1 200 "StateDoc (initialState 0)" "initialState 0"]
  have a: "fst (fetchGameState ?wA) = succeed (initialState 0) \<and>
           storage (snd (fetchGameState ?wA)) = Some (StateDoc (initialState 0))"
    by (simp add: example_world_def)
  from fetchGameState_outcomes [OF t(2) t(6), of 0 401 Malformed]
  have b: "fst (fetchGameState ?wB) = failure (Text ''Authentication required'')"
    by (simp add: example_world_def)
  from fetchGameState_outcomes [OF t(3) t(6), of 0 0 Malformed _ "initialState 7"]
  have c: "fst (fetchGameState ?wC) = succeed (initialState 7)"
    by (simp add: example_world_def)
  from fetchGameState_outcomes [OF t(4) t(6), of 0 0 Malformed]
  have d: "fst (fetchGameState ?wD) = failure (Text ''Invalid stored game state'')"
    by (simp add: example_world_def)
  from fetchGameState_outcomes [OF t(5) t(6), of 0 0 Malformed]
  have e: "fst (fetchGameState ?wE) = failure (MessageOf (AxiosError None))"
    by (simp add: example_world_def)
  from a b c d e show ?thesis by blast
qed

lemma fetchGameState_cases:
  "\<exists>reqs ds. list_all (\<lambda>r. \<not> is_write r) reqs \<and>
     ((\<exists>g m st tok. 200 \<le> st \<and> st < 300 \<and> net w m = Response st (StateDoc g) \<and>
          token w = Some tok \<and> tok \<noteq> [] \<and>
          fetchGameState w =
            (succeed g, w\<lparr>sent := sent w @ reqs, delays := delays w @ ds,
                          storage := Some (StateDoc g)\<rparr>)) \<or>
      (\<exists>c tok. storage w = Some (StateDoc c) \<and> token w = Some tok \<and> tok \<noteq> [] \<and>
          fetchGameState w = (succeed c, w\<lparr>sent := sent w @ reqs, delays := delays w @ ds\<rparr>)) \<or>
      (\<exists>m. fetchGameState w = (failure m, w\<lparr>sent := sent w @ reqs, delays := delays w @ ds\<rparr>)))"
proof (cases "\<exists>tok. token w = Some tok \<and> tok \<noteq> []")
  case False
  then have "fetchGameState w =
      (failure (Text ''No authentication token found''),
       w\<lparr>sent := sent w @ [], delays := delays w @ []\<rparr>)"
    by (auto simp: fetchGameState_def fetch_try_def fetch_catch_def split: option.splits)
  then show ?thesis
    by (intro exI [of _ "[]"]) auto
next
  case True
  then obtain tok where tok: "token w = Some tok" "tok \<noteq> []" by blast
  let ?req = "GET_load tok"
  from retry_axios_result [of MAX_RETRY_ATTEMPTS w ?req]
  obtain k ds where
    alt: "(\<exists>body st m. 200 \<le> st \<and> st < 300 \<and> net w m = Response st body \<and>
         retryWithBackoff (axios_request ?req) MAX_RETRY_ATTEMPTS w =
           (Inr body, w\<lparr>sent := sent w @ replicate k ?req, delays := delays w @ ds\<rparr>)) \<or>
      (\<exists>r. retryWithBackoff (axios_request ?req) MAX_RETRY_ATTEMPTS w =
           (Inl (AxiosError r), w\<lparr>sent := sent w @ replicate k ?req, delays := delays w @ ds\<rparr>))"
    by blast
  let ?W = "w\<lparr>sent := sent w @ replicate k ?req, delays := delays w @ ds\<rparr>"
  have gets: "list_all (\<lambda>r. \<not> is_write r) (replicate k ?req)"
    by (simp add: list_all_iff)
  from alt show ?thesis
  proof
    assume "\<exists>body st m. 200 \<le> st \<and> st < 300 \<and> net w m = Response st body \<and>
         retryWithBackoff (axios_request ?req) MAX_RETRY_ATTEMPTS w = (Inr body, ?W)"
    then obtain body st m where ok: "200 \<le> st" "st < 300" "net w m = Response st body"
      and r: "retryWithBackoff (axios_request ?req) MAX_RETRY_ATTEMPTS w = (Inr body, ?W)"
      by blast
    show ?thesis
    proof (cases body)
      case (StateDoc g)
      have "fetchGameState w = (succeed g, ?W\<lparr>storage := Some (StateDoc g)\<rparr>)"
        using tok r StateDoc
        by (simp add: fetchGameState_def fetch_try_def GameStateSchema_parse_def)
      with ok StateDoc tok gets show ?thesis
        by (intro exI [of _ "replicate k ?req"] exI [of _ ds]) auto
    next
      case Malformed
      have "fetchGameState w = (failure (MessageOf ZodError), ?W)"
        using tok r Malformed
        by (simp add: fetchGameState_def fetch_try_def fetch_catch_def GameStateSchema_parse_def
            split: option.splits)
      with gets show ?thesis
        by (intro exI [of _ "replicate k ?req"] exI [of _ ds]) auto
    qed
  next
    assume "\<exists>r. retryWithBackoff (axios_request ?req) MAX_RETRY_ATTEMPTS w = (Inl (AxiosError r), ?W)"
    then obtain r where r: "retryWithBackoff (axios_request ?req) MAX_RETRY_ATTEMPTS w
        = (Inl (AxiosError r), ?W)"
      by blast
    have "(\<exists>c. storage w = Some (StateDoc c) \<and> fetchGameState w = (succeed c, ?W)) \<or>
          (\<exists>m. fetchGameState w = (failure m, ?W))"
      using tok r
      by (auto simp: fetchGameState_def fetch_try_def fetch_catch_def GameStateSchema_parse_def
          split: option.splits json_doc.splits bool.splits)
    with tok gets show ?thesis
      by (intro exI [of _ "replicate k ?req"] exI [of _ ds]) auto
  qed
qed

lemma save_try_cases:
  assumes "token w = Some tok" "tok \<noteq> []"
  shows "\<exists>k ds. 1 \<le> k \<and> k \<le> 4 \<and>
     (save_try state w =
        (Inr (), w\<lparr>sent := sent w @ replicate k (POST_save tok (version state) state),
                    delays := delays w @ ds, storage := Some (StateDoc state)\<rparr>) \<or>
      (\<exists>e. save_try state w =
        (Inl e, w\<lparr>sent := sent w @ replicate k (POST_save tok (version state) state),
                   delays := delays w @ ds\<rparr>)))"
proof -
  let ?req = "POST_save tok (version state) state"
  from retry_axios_result [of MAX_RETRY_ATTEMPTS w ?req]
  obtain k ds where k: "1 \<le> k" "k \<le> Suc MAX_RETRY_ATTEMPTS" and
    alt: "(\<exists>body st m. 200 \<le> st \<and> st < 300 \<and> net w m = Response st body \<and>
         retryWithBackoff (axios_request ?req) MAX_RETRY_ATTEMPTS w =
           (Inr body, w\<lparr>sent := sent w @ replicate k ?req, delays := delays w @ ds\<rparr>)) \<or>
      (\<exists>r. retryWithBackoff (axios_request ?req) MAX_RETRY_ATTEMPTS w =
           (Inl (AxiosError r), w\<lparr>sent := sent w @ replicate k ?req, delays := delays w @ ds\<rparr>))"
    by blast
  have k4: "k \<le> 4" using k by (simp add: MAX_RETRY_ATTEMPTS_def)
  from alt have "save_try state w =
        (Inr (), w\<lparr>sent := sent w @ replicate k ?req,
                    delays := delays w @ ds, storage := Some (StateDoc state)\<rparr>) \<or>
      (\<exists>e. save_try state w =
        (Inl e, w\<lparr>sent := sent w @ replicate k ?req, delays := delays w @ ds\<rparr>))"
    using assms by (auto simp: save_try_def)
  with k(1) k4 show ?thesis by blast
qed

lemma fetchGameState_frame:
  "token (snd (fetchGameState w)) = token w \<and> onLine (snd (fetchGameState w)) = onLine w \<and>
   clock (snd (fetchGameState w)) = clock w \<and> net (snd (fetchGameState w)) = net w \<and>
   operationQueue (snd (fetchGameState w)) = operationQueue w \<and>
   nextRef (snd (fetchGameState w)) = nextRef w"
  using fetchGameState_cases [of w] by (elim exE conjE disjE) simp_all

lemma save_try_frame:
  "token (snd (save_try state w)) = token w \<and> onLine (snd (save_try state w)) = onLine w \<and>
   clock (snd (save_try state w)) = clock w \<and> net (snd (save_try state w)) = net w \<and>
   operationQueue (snd (save_try state w)) = operationQueue w \<and>
   nextRef (snd (save_try state w)) = nextRef w"
proof (cases "\<exists>tok. token w = Some tok \<and> tok \<noteq> []")
  case False
  then have "snd (save_try state w) = w"
    by (auto simp: save_try_def split: option.splits)
  then show ?thesis by simp
next
  case True
  then obtain tok where "token w = Some tok" "tok \<noteq> []" by blast
  from save_try_cases [OF this, of state] show ?thesis
    by (elim exE conjE disjE) simp_all
qed

lemma save_try_failure_storage:
  "save_try state w = (Inl err, w') \<Longrightarrow> storage w' = storage w"
proof (cases "\<exists>tok. token w = Some tok \<and> tok \<noteq> []")
  case False
  moreover assume "save_try state w = (Inl err, w')"
  ultimately show ?thesis
    by (auto simp: save_try_def split: option.splits)
next
  case True
  then obtain tok where "token w = Some tok" "tok \<noteq> []" by blast
  from save_try_cases [OF this, of state]
  show "save_try state w = (Inl err, w') \<Longrightarrow> storage w' = storage w"
    by (elim exE conjE disjE) auto
qed

lemma fetchGameState_debounce_frame:
  "debouncePending (snd (fetchGameState w)) = debouncePending w \<and>
   debounceResult (snd (fetchGameState w)) = debounceResult w \<and>
   clockReads (snd (fetchGameState w)) = clockReads w"
  using fetchGameState_cases [of w] by (elim exE conjE disjE) simp_all

lemma save_body_sent:
  assumes "token w = Some tok" "tok \<noteq> []"
  shows "\<exists>k. 1 \<le> k \<and> k \<le> 4 \<and>
     sent (snd (save_body state w)) =
       sent w @ replicate k (POST_save tok (version state) state)"
proof -
  from save_try_cases [OF assms, of state] obtain k ds where k: "1 \<le> k" "k \<le> 4" and
    alt: "save_try state w =
        (Inr (), w\<lparr>sent := sent w @ replicate k (POST_save tok (version state) state),
                    delays := delays w @ ds, storage := Some (StateDoc state)\<rparr>) \<or>
      (\<exists>e. save_try state w =
        (Inl e, w\<lparr>sent := sent w @ replicate k (POST_save tok (version state) state),
                   delays := delays w @ ds\<rparr>))"
    by blast
  from alt have "sent (snd (save_body state w)) =
       sent w @ replicate k (POST_save tok (version state) state)"
    by (auto simp: save_body_def enqueue_def)
  with k show ?thesis by blast
qed

lemma debounce_fire_sent:
  assumes "debouncePending w = Some lastArgs" "token w = Some tok" "tok \<noteq> []"
  shows "\<exists>k. 1 \<le> k \<and> k \<le> 4 \<and>
     sent (debounce_fire w) = sent w @ replicate k (POST_save tok (version lastArgs) lastArgs)"
proof -
  let ?w0 = "w\<lparr>debouncePending := None\<rparr>"
  have "token ?w0 = Some tok" using assms by simp
  from save_body_sent [OF this assms(3), of lastArgs] obtain k where
    "1 \<le> k" "k \<le> 4"
    "sent (snd (save_body lastArgs ?w0)) =
       sent ?w0 @ replicate k (POST_save tok (version lastArgs) lastArgs)"
    by blast
  then show ?thesis
    using assms(1) by (auto simp: debounce_fire_def split: prod.splits)
qed

text \<open>
  Claim C4. \<open>saveProgress\<close> first loads; the requests of the load are no writes, and the
  call itself sends nothing else. When the load succeeds with a state of version \<open>v\<close>, the
  given state with its version set to \<open>v + 1\<close> is what the debounce wrapper keeps, and the
  write that the wrapper submits for it when its timer expires is that state under an
  \<open>If-Match\<close> header of \<open>v + 1\<close>, sent at least once and at most four times. When the load
  fails, \<open>saveProgress\<close> returns the failure \<open>Failed to fetch current state\<close>, hands nothing
  to the wrapper and leaves the cache as it was.
\<close>

theorem saveProgress_versioned_write:
  "\<exists>reqs. list_all (\<lambda>r. \<not> is_write r) reqs \<and>
     sent (snd (saveProgress state w)) = sent w @ reqs \<and>
     (success (fst (fetchGameState w)) \<longrightarrow>
        (\<exists>d tok k. data (fst (fetchGameState w)) = Some d \<and> token w = Some tok \<and>
           debouncePending (snd (saveProgress state w)) =
             Some (state\<lparr>version := version d + 1\<rparr>) \<and>
           1 \<le> k \<and> k \<le> 4 \<and>
           sent (debounce_fire (snd (saveProgress state w))) =
             sent w @ reqs @
             replicate k (POST_save tok (version d + 1) (state\<lparr>version := version d + 1\<rparr>)))) \<and>
     (\<not> success (fst (fetchGameState w)) \<longrightarrow>
        saveProgress state w =
          (Some (failure (Text ''Failed to fetch current state'')), snd (fetchGameState w)) \<and>
        storage (snd (saveProgress state w)) = storage w \<and>
        debouncePending (snd (saveProgress state w)) = debouncePending w)"
proof -
  from fetchGameState_cases [of w] obtain reqs ds where
    gets: "list_all (\<lambda>r. \<not> is_write r) reqs" and
    alt: "(\<exists>g m st tok. 200 \<le> st \<and> st < 300 \<and> net w m = Response st (StateDoc g) \<and>
          token w = Some tok \<and> tok \<noteq> [] \<and>
          fetchGameState w =
            (succeed g, w\<lparr>sent := sent w @ reqs, delays := delays w @ ds,
                          storage := Some (StateDoc g)\<rparr>)) \<or>
      (\<exists>c tok. storage w = Some (StateDoc c) \<and> token w = Some tok \<and> tok \<noteq> [] \<and>
          fetchGameState w = (succeed c, w\<lparr>sent := sent w @ reqs, delays := delays w @ ds\<rparr>)) \<or>
      (\<exists>m. fetchGameState w = (failure m, w\<lparr>sent := sent w @ reqs, delays := delays w @ ds\<rparr>))"
    by blast
  have ok: "sent (snd (saveProgress state w)) = sent w @ reqs \<and>
     (success (fst (fetchGameState w)) \<longrightarrow>
        (\<exists>d tok k. data (fst (fetchGameState w)) = Some d \<and> token w = Some tok \<and>
           debouncePending (snd (saveProgress state w)) =
             Some (state\<lparr>version := version d + 1\<rparr>) \<and>
           1 \<le> k \<and> k \<le> 4 \<and>
           sent (debounce_fire (snd (saveProgress state w))) =
             sent w @ reqs @
             replicate k (POST_save tok (version d + 1) (state\<lparr>version := version d + 1\<rparr>)))) \<and>
     (\<not> success (fst (fetchGameState w)) \<longrightarrow>
        saveProgress state w =
          (Some (failure (Text ''Failed to fetch current state'')), snd (fetchGameState w)) \<and>
        storage (snd (saveProgress state w)) = storage w \<and>
        debouncePending (snd (saveProgress state w)) = debouncePending w)"
    if f: "fetchGameState w = (succeed g, w1)" and s: "sent w1 = sent w @ reqs"
      and t: "token w = Some tok" "tok \<noteq> []" "token w1 = token w"
    for g w1 tok
  proof -
    let ?new = "state\<lparr>version := version g + 1\<rparr>"
    let ?w2 = "w1\<lparr>debouncePending := Some ?new\<rparr>"
    have sp: "saveProgress state w = (debounceResult w1, ?w2)"
      by (simp add: saveProgress_def f succeed_def debouncedSave_def)
    have "debouncePending ?w2 = Some ?new" "token ?w2 = Some tok" using t by simp_all
    from debounce_fire_sent [OF this t(2)] obtain k where
      "1 \<le> k" "k \<le> 4"
      "sent (debounce_fire ?w2) = sent ?w2 @ replicate k (POST_save tok (version ?new) ?new)"
      by blast
    then show ?thesis
      using t by (simp add: f sp s succeed_def)
  qed
  from alt show ?thesis
  proof (elim disjE exE conjE)
    fix g m st tok
    assume "token w = Some tok" "tok \<noteq> []"
      "fetchGameState w =
        (succeed g, w\<lparr>sent := sent w @ reqs, delays := delays w @ ds, storage := Some (StateDoc g)\<rparr>)"
    note a = this
    let ?W = "w\<lparr>sent := sent w @ reqs, delays := delays w @ ds, storage := Some (StateDoc g)\<rparr>"
    have b: "sent ?W = sent w @ reqs" "token ?W = token w" by simp_all
    from ok [OF a(3) b(1) a(1,2) b(2)] gets show ?thesis by blast
  next
    fix c tok
    assume "token w = Some tok" "tok \<noteq> []"
      "fetchGameState w = (succeed c, w\<lparr>sent := sent w @ reqs, delays := delays w @ ds\<rparr>)"
    note a = this
    let ?W = "w\<lparr>sent := sent w @ reqs, delays := delays w @ ds\<rparr>"
    have b: "sent ?W = sent w @ reqs" "token ?W = token w" by simp_all
    from ok [OF a(3) b(1) a(1,2) b(2)] gets show ?thesis by blast
  next
    fix m
    assume "fetchGameState w = (failure m, w\<lparr>sent := sent w @ reqs, delays := delays w @ ds\<rparr>)"
    then show ?thesis
      using gets by (intro exI [of _ reqs]) (simp add: saveProgress_def failure_def)
  qed
qed

lemmas sync_eval =
  fetchGameState_def fetch_try_def fetch_catch_def saveProgress_def debouncedSave_def
  debounce_fire_def save_body_def save_try_def upgradePart_def updateBalance_def enqueue_def
  retry_Suc retry_0 axios_request_def MAX_RETRY_ATTEMPTS_def numeral_3_eq_3
  GameStateSchema_parse_def succeed_def succeed_void_def queued_def failure_def
  example_world_def Let_def

theorem saveProgress_versioned_write_witness:
  "success (fst (fetchGameState
       (example_world (\<lambda>n. Response 200 (StateDoc ((initialState 0)\<lparr>version := 5\<rparr>)))))) \<and>
   fst (saveProgress (initialState 9)
       (example_world (\<lambda>n. Response 200 (StateDoc ((initialState 0)\<lparr>version := 5\<rparr>)))))
     = None \<and>
   sent (snd (saveProgress (initialState 9)
       (example_world (\<lambda>n. Response 200 (StateDoc ((initialState 0)\<lparr>version := 5\<rparr>))))))
     = [GET_load ''t''] \<and>
   debouncePending (snd (saveProgress (initialState 9)
       (example_world (\<lambda>n. Response 200 (StateDoc ((initialState 0)\<lparr>version := 5\<rparr>))))))
     = Some ((initialState 9)\<lparr>version := 6\<rparr>) \<and>
   sent (debounce_fire (snd (saveProgress (initialState 9)
       (example_world (\<lambda>n. Response 200 (StateDoc ((initialState 0)\<lparr>version := 5\<rparr>)))))))
     = [GET_load ''t'', POST_save ''t'' 6 ((initialState 9)\<lparr>version := 6\<rparr>)] \<and>
   \<not> success (fst (fetchGameState (example_world (\<lambda>n. Response 500 Malformed)))) \<and>
   fst (saveProgress (initialState 9) (example_world (\<lambda>n. Response 500 Malformed)))
     = Some (failure (Text ''Failed to fetch current state'')) \<and>
   sent (snd (saveProgress (initialState 9) (example_world (\<lambda>n. Response 500 Malformed))))
     = [GET_load ''t'']"
proof -
  let ?wA = "example_world (\<lambda>n. Response 200 (StateDoc ((initialState 0)\<lparr>version := 5\<rparr>)))"
  let ?wB = "example_world (\<lambda>n. Response 500 Malformed)"
  let ?s = "initialState 9"
  have fA: "fetchGameState ?wA =
      (succeed ((initialState 0)\<lparr>version := 5\<rparr>),
       ?wA\<lparr>sent := [GET_load ''t''], storage := Some (StateDoc ((initialState 0)\<lparr>version := 5\<rparr>))\<rparr>)"
    by (simp add: sync_eval)
  have fB: "fetchGameState ?wB =
      (failure (MessageOf (AxiosError (Some 500))), ?wB\<lparr>sent := [GET_load ''t'']\<rparr>)"
    by (simp add: sync_eval)
  have rA: "fst (saveProgress ?s ?wA) = None"
    by (simp add: sync_eval)
  from saveProgress_versioned_write [of ?s ?wA]
  obtain reqs d tok k where
    a: "sent (snd (saveProgress ?s ?wA)) = sent ?wA @ reqs"
       "data (fst (fetchGameState ?wA)) = Some d" "token ?wA = Some tok" "1 \<le> k" "k \<le> 4"
       "debouncePending (snd (saveProgress ?s ?wA)) = Some (?s\<lparr>version := version d + 1\<rparr>)"
       "sent (debounce_fire (snd (saveProgress ?s ?wA))) =
          sent ?wA @ reqs @
          replicate k (POST_save tok (version d + 1) (?s\<lparr>version := version d + 1\<rparr>))"
    unfolding fA by (auto simp: succeed_def)
  have "sent (snd (saveProgress ?s ?wA)) = [GET_load ''t'']"
    by (simp add: sync_eval)
  with a(1,2,3) have v: "reqs = [GET_load ''t'']" "d = (initialState 0)\<lparr>version := 5\<rparr>" "tok = ''t''"
    unfolding fA by (simp_all add: succeed_def example_world_def)
  have "length (sent (debounce_fire (snd (saveProgress ?s ?wA)))) = 2"
    by (simp add: sync_eval)
  with a(7) have "k = 1" unfolding v by (simp add: example_world_def)
  with a(1,6,7) have A: "sent (snd (saveProgress ?s ?wA)) = [GET_load ''t'']"
     "debouncePending (snd (saveProgress ?s ?wA)) = Some (?s\<lparr>version := 6\<rparr>)"
     "sent (debounce_fire (snd (saveProgress ?s ?wA)))
        = [GET_load ''t'', POST_save ''t'' 6 (?s\<lparr>version := 6\<rparr>)]"
    unfolding v by (simp_all add: example_world_def)
  have sA: "success (fst (fetchGameState ?wA))" unfolding fA by (simp add: succeed_def)
  have sB: "\<not> success (fst (fetchGameState ?wB))" unfolding fB by (simp add: failure_def)
  from saveProgress_versioned_write [of ?s ?wB] sB
  have B: "saveProgress ?s ?wB =
          (Some (failure (Text ''Failed to fetch current state'')), snd (fetchGameState ?wB))"
    by blast
  then have B1: "fst (saveProgress ?s ?wB) = Some (failure (Text ''Failed to fetch current state''))"
    and B2: "sent (snd (saveProgress ?s ?wB)) = [GET_load ''t'']"
    unfolding fB by simp_all
  from sA rA A sB B1 B2 show ?thesis by blast
qed

lemma version_initialState: "version (initialState t) = 0"
  by (simp add: initialState_def)

text \<open>
  Claim C3 on the code. Offline, with a valid cache and no response to any request, the
  first \<open>saveProgress\<close> resolves to nothing (\<^verbatim>\<open>undefined\<close>): the queued-warning result
  is produced only when the debounce timer expires, goes to the wrapper, and is what a
  later call returns; the queue is empty when the call returns and holds the save after
  the expiry. Offline with an empty cache the load fails and \<open>saveProgress\<close> returns the
  error \<open>Failed to fetch current state\<close>; nothing is queued and nothing is kept for a later
  write. Online, with the write rejected by status 409, the call resolves to nothing as
  well; the error result exists only after the expiry, and the queue stays empty.
\<close>

theorem saveProgress_caller_result:
  "\<not> onLine offline_world \<and>
   fst (saveProgress (initialState 9) offline_world) = None \<and>
   operationQueue (snd (saveProgress (initialState 9) offline_world)) = [] \<and>
   debounceResult (debounce_fire (snd (saveProgress (initialState 9) offline_world)))
     = Some (queued ''Changes queued for sync'') \<and>
   operationQueue (debounce_fire (snd (saveProgress (initialState 9) offline_world)))
     = [\<lparr>payload = SaveData ((initialState 9)\<lparr>version := 1\<rparr>), timestamp = 0, ref = 0\<rparr>] \<and>
   \<not> onLine offline_empty_world \<and>
   fst (saveProgress (initialState 9) offline_empty_world)
     = Some (failure (Text ''Failed to fetch current state'')) \<and>
   operationQueue (snd (saveProgress (initialState 9) offline_empty_world)) = [] \<and>
   debouncePending (snd (saveProgress (initialState 9) offline_empty_world)) = None \<and>
   onLine rejecting_world \<and>
   fst (saveProgress (initialState 9) rejecting_world) = None \<and>
   debounceResult (debounce_fire (snd (saveProgress (initialState 9) rejecting_world)))
     = Some (failure (MessageOf (AxiosError (Some 409)))) \<and>
   operationQueue (debounce_fire (snd (saveProgress (initialState 9) rejecting_world))) = []"
  by (simp add: sync_eval offline_world_def offline_empty_world_def rejecting_world_def
      version_initialState)

text \<open>
  Claim C10 on the code. Online, with both loads answered by the server: \<open>upgradePart\<close>
  writes the upgraded state to the cache, and the load inside \<open>saveProgress\<close> then replaces
  it by the state the server sent, before any write is sent. The call resolves to nothing;
  when the debounce timer expires the write is rejected with status 409, the result is an
  error, and the cache still holds the server's state, not the upgraded one. On the
  offline path, where \<open>saveProgress\<close> is not called, the cache keeps the upgraded state.
\<close>

theorem upgradePart_cache_overwritten:
  "onLine conflict_world \<and>
   fst (fetchGameState conflict_world) = succeed (initialState 0) \<and>
   fst (upgradePart Cpu 2 conflict_world) = None \<and>
   sent (snd (upgradePart Cpu 2 conflict_world)) = [GET_load ''t'', GET_load ''t''] \<and>
   storage (snd (upgradePart Cpu 2 conflict_world)) = Some (StateDoc (initialState 0)) \<and>
   debounceResult (debounce_fire (snd (upgradePart Cpu 2 conflict_world)))
     = Some (failure (MessageOf (AxiosError (Some 409)))) \<and>
   storage (debounce_fire (snd (upgradePart Cpu 2 conflict_world)))
     = Some (StateDoc (initialState 0)) \<and>
   initialState 0 \<noteq> (initialState 0)\<lparr>parts := set_level Cpu 2 (parts (initialState 0))\<rparr> \<and>
   \<not> onLine offline_world \<and>
   storage (snd (upgradePart Cpu 2 offline_world))
     = Some (StateDoc ((initialState 0)\<lparr>parts := set_level Cpu 2 (parts (initialState 0))\<rparr>))"
proof -
  have "(initialState 0) \<noteq> (initialState 0)\<lparr>parts := set_level Cpu 2 (parts (initialState 0))\<rparr>"
  proof
    assume "(initialState 0) = (initialState 0)\<lparr>parts := set_level Cpu 2 (parts (initialState 0))\<rparr>"
    then have "cpu (parts (initialState 0))
        = cpu (parts ((initialState 0)\<lparr>parts := set_level Cpu 2 (parts (initialState 0))\<rparr>))"
      by simp
    then show False by (simp add: initialState_def)
  qed
  moreover have "onLine conflict_world"
    "fst (fetchGameState conflict_world) = succeed (initialState 0)"
    "fst (upgradePart Cpu 2 conflict_world) = None"
    "sent (snd (upgradePart Cpu 2 conflict_world)) = [GET_load ''t'', GET_load ''t'']"
    "storage (snd (upgradePart Cpu 2 conflict_world)) = Some (StateDoc (initialState 0))"
    "debounceResult (debounce_fire (snd (upgradePart Cpu 2 conflict_world)))
       = Some (failure (MessageOf (AxiosError (Some 409))))"
    "storage (debounce_fire (snd (upgradePart Cpu 2 conflict_world)))
       = Some (StateDoc (initialState 0))"
    by (simp_all add: sync_eval conflict_world_def version_initialState)
  moreover have "\<not> onLine offline_world"
    "storage (snd (upgradePart Cpu 2 offline_world))
     = Some (StateDoc ((initialState 0)\<lparr>parts := set_level Cpu 2 (parts (initialState 0))\<rparr>))"
    by (simp_all add: sync_eval offline_world_def)
  ultimately show ?thesis by simp
qed

lemma replay_returns: "\<exists>r. fst (replay operation w) = Inr r"
  by (simp add: replay_def split: queued_data.splits prod.splits)

text \<open>
  Claim C2 on the code. Three operations are queued with timestamps 1, 2, 3 and the browser
  is online. The replay of the second one fails: a load of it is answered with status 500
  and it returns the failure \<open>Failed to fetch current state\<close>. It returns it as a result, and
  \<open>processQueue\<close> reads no result: the second operation is removed like the first, the third
  is replayed (the last two requests), and the queue ends empty.
\<close>

theorem processQueue_removes_failed_operation:
  "onLine three_queued_world \<and>
   sort_key timestamp (operationQueue three_queued_world)
     = [queued_first, queued_second, queued_third] \<and>
   fst (replay queued_second
          ((snd (replay queued_first three_queued_world))
             \<lparr>operationQueue := [queued_second, queued_third]\<rparr>))
     = Inr (Some (failure (Text ''Failed to fetch current state''))) \<and>
   operationQueue (processQueue three_queued_world) = [] \<and>
   sent (processQueue three_queued_world)
     = [GET_load ''t'', GET_load ''t'',
        GET_load ''t'', GET_load ''t'',
        GET_load ''t'', GET_load ''t'']"
proof -
  have on: "onLine three_queued_world"
    by (simp add: three_queued_world_def example_world_def)
  have q: "operationQueue three_queued_world = [queued_first, queued_second, queued_third]"
    by (simp add: three_queued_world_def example_world_def)
  have sorted: "sort_key timestamp [queued_first, queued_second, queued_third]
     = [queued_first, queued_second, queued_third]"
    by (simp add: queued_first_def queued_second_def queued_third_def)
  have pq: "processQueue three_queued_world =
      process_loop [queued_first, queued_second, queued_third] three_queued_world"
    using on by (simp only: processQueue_def q sorted) simp
  have second: "fst (replay queued_second
          ((snd (replay queued_first three_queued_world))
             \<lparr>operationQueue := [queued_second, queued_third]\<rparr>))
     = Inr (Some (failure (Text ''Failed to fetch current state'')))"
    by (simp add: replay_def queued_first_def queued_second_def queued_third_def
        three_queued_world_def sync_eval version_initialState)
  have final: "operationQueue (processQueue three_queued_world) = [] \<and>
    sent (processQueue three_queued_world)
     = [GET_load ''t'', GET_load ''t'',
        GET_load ''t'', GET_load ''t'',
        GET_load ''t'', GET_load ''t'']"
    unfolding pq
    by (simp add: replay_def queued_first_def queued_second_def queued_third_def
        three_queued_world_def sync_eval version_initialState)
  from on q sorted second final show ?thesis by simp
qed

text \<open>The guard of \<open>processQueue\<close> is passed in that world: it is online and its queue is
  not empty; the run ends with an empty queue after six requests.\<close>

theorem processQueue_removes_failed_operation_witness:
  "onLine three_queued_world \<and> operationQueue three_queued_world \<noteq> [] \<and>
   operationQueue (processQueue three_queued_world) = [] \<and>
   length (sent (processQueue three_queued_world)) = 6"
proof -
  have "operationQueue three_queued_world \<noteq> []"
    by (simp add: three_queued_world_def example_world_def)
  with processQueue_removes_failed_operation show ?thesis by simp
qed


end
